theory Spec2Isabelle
  imports Complex_Main "HOL-Library.Sublist"
begin

section \<open>Sentiment scoring and fraud-risk metrics of the app analyser\<close>

text \<open>
  The development embeds \<^verbatim>\<open>modules/sentiment_analyzer.py\<close>, the labelling lambda and
  the risk decision of \<^verbatim>\<open>main.py\<close> (\<^verbatim>\<open>analyze_direct\<close>, \<^verbatim>\<open>search_apps_route\<close>) and the
  constants of \<^verbatim>\<open>config.py\<close>.

  Python floats are modelled by exact rationals (\<^typ>\<open>rat\<close>): every statement below is
  about the arithmetic the code writes down, not about its rounding.
\<close>

subsection \<open>Python values\<close>

text \<open>
  A cell of a review table holding text: \<open>Some s\<close> is a Python \<^verbatim>\<open>str\<close>, \<open>None\<close> is a
  value that is not a \<^verbatim>\<open>str\<close> (a missing text, Python's \<^verbatim>\<open>None\<close>). The functions below
  only ever ask of such a value whether it is a \<^verbatim>\<open>str\<close>.
\<close>

type_synonym cell = "string option"

datatype error = KeyError string

text \<open>\<^verbatim>\<open>str.lower()\<close> on the code points below 256: the ASCII capitals and the Latin-1
  capitals (U+00C0 to U+00DE without the multiplication sign U+00D7) move up by 32.\<close>

definition char_lower :: "char \<Rightarrow> char" where
  "char_lower c =
     (let n = (of_char c :: nat)
      in if (65 \<le> n \<and> n \<le> 90) \<or> (192 \<le> n \<and> n \<le> 222 \<and> n \<noteq> 215)
         then char_of (n + 32) else c)"

definition str_lower :: "string \<Rightarrow> string" where
  "str_lower s = map char_lower s"

text \<open>\<^verbatim>\<open>k in t\<close> on strings: \<open>k\<close> occurs in \<open>t\<close> as a contiguous substring.\<close>

fun str_contains :: "string \<Rightarrow> string \<Rightarrow> bool" where
  "str_contains k [] = (k = [])"
| "str_contains k (c # cs) = (prefix k (c # cs) \<or> str_contains k cs)"

text \<open>\<^verbatim>\<open>str(v)\<close> of a cell.\<close>

definition py_str :: "cell \<Rightarrow> string" where
  "py_str v = (case v of Some s \<Rightarrow> s | None \<Rightarrow> ''None'')"

subsection \<open>Configuration (\<^verbatim>\<open>config.py\<close>)\<close>

definition DEFAULT_FRAUD_THRESHOLD :: rat where
  "DEFAULT_FRAUD_THRESHOLD = 30"

definition POSITIVE_THRESHOLD :: rat where
  "POSITIVE_THRESHOLD = 1 / 10"

definition NEGATIVE_THRESHOLD :: rat where
  "NEGATIVE_THRESHOLD = - (1 / 10)"

definition RISK_WARNING_SHORT :: string where
  "RISK_WARNING_SHORT = ''Strong indicators of potential risk identified''"

subsection \<open>Polarity classifier (\<^verbatim>\<open>analyze_sentiment\<close>)\<close>

definition NEGATIVE_KEYWORDS :: "string list" where
  "NEGATIVE_KEYWORDS =
    [''scam'', ''scum'', ''useless'', ''fraud'', ''fake'', ''deceptive'', ''ripoff'',
     ''unresponsive'', ''broken'', ''glitch'', ''buggy'', ''crash'', ''malware'',
     ''phishing'', ''steal'', ''stolen'', ''lie'', ''lying'', ''cheat'', ''cheating'',
     ''misleading'', ''unreliable'', ''waste of time'', ''terrible'', ''horrible'',
     ''worst'', ''bad experience'', ''do not install'', ''uninstall'', ''delete'',
     ''warning'', ''beware'', ''deceitful'', ''untrustworthy'']"

text \<open>The \<^verbatim>\<open>for keyword in NEGATIVE_KEYWORDS\<close> loop of \<^verbatim>\<open>analyze_sentiment\<close>: the value
  returned from inside the loop, or \<open>None\<close> when the loop runs to its end.\<close>

fun keyword_loop :: "string list \<Rightarrow> string \<Rightarrow> rat option" where
  "keyword_loop [] lower_text = None"
| "keyword_loop (keyword # keywords) lower_text =
     (if str_contains keyword lower_text then Some (- (8 / 10))
      else keyword_loop keywords lower_text)"

text \<open>\<open>textblob_polarity\<close> stands for \<^verbatim>\<open>TextBlob(text).sentiment.polarity\<close>, the external
  polarity model.\<close>

definition analyze_sentiment :: "(string \<Rightarrow> rat) \<Rightarrow> cell \<Rightarrow> rat" where
  "analyze_sentiment textblob_polarity text =
     (case text of
        None \<Rightarrow> 0
      | Some s \<Rightarrow>
          (case keyword_loop NEGATIVE_KEYWORDS (str_lower s) of
             Some v \<Rightarrow> v
           | None \<Rightarrow> textblob_polarity s))"

subsection \<open>Label derivation and risk decision (\<^verbatim>\<open>main.py\<close>)\<close>

text \<open>The lambda applied to the polarity column in \<^verbatim>\<open>analyze_direct\<close>, with the two
  thresholds it reads from the configuration as parameters.\<close>

definition label :: "rat \<Rightarrow> rat \<Rightarrow> rat \<Rightarrow> string" where
  "label p positive_threshold negative_threshold =
     (if p > positive_threshold then ''Positive''
      else if p < negative_threshold then ''Negative''
      else ''Neutral'')"

text \<open>The two keyword arguments \<^verbatim>\<open>risk_detected\<close> and \<^verbatim>\<open>risk_message\<close> that
  \<^verbatim>\<open>analyze_direct\<close> hands to the result page. \<open>risk_warning_short\<close> is the constant
  \<^verbatim>\<open>RISK_WARNING_SHORT\<close> that \<^verbatim>\<open>main.py\<close> imports from the report generator.\<close>

definition assess_risk :: "string \<Rightarrow> rat \<Rightarrow> rat \<Rightarrow> bool \<times> string" where
  "assess_risk risk_warning_short neg_pct fraud_threshold =
     (neg_pct > fraud_threshold,
      if neg_pct > fraud_threshold then risk_warning_short else ''No risk indicators'')"

text \<open>The entries \<^verbatim>\<open>risk_detected\<close> and \<^verbatim>\<open>risk_message\<close> of \<^verbatim>\<open>result_data\<close> in
  \<^verbatim>\<open>update_to_main.py\<close>.\<close>

definition result_data_risk :: "string \<Rightarrow> rat \<Rightarrow> rat \<Rightarrow> bool \<times> string" where
  "result_data_risk risk_warning_short negative_pct fraud_threshold =
     (negative_pct > fraud_threshold,
      if negative_pct > fraud_threshold then risk_warning_short
      else ''No significant risk indicators found'')"

text \<open>What \<^verbatim>\<open>search_apps_route\<close> stores as \<^verbatim>\<open>last_fraud_threshold\<close>, the threshold
  \<^verbatim>\<open>analyze_direct\<close> later reads back.\<close>

definition store_fraud_threshold :: "rat \<Rightarrow> rat" where
  "store_fraud_threshold fraud_threshold = max 1 (min fraud_threshold 100)"

text \<open>Neither the lambda nor the risk expressions contain a \<^verbatim>\<open>raise\<close>, a check of their
  parameters or an operation that can fail: as outcomes (an error or a value) they are
  always values.\<close>

definition label_outcome :: "rat \<Rightarrow> rat \<Rightarrow> rat \<Rightarrow> error + string" where
  "label_outcome p positive_threshold negative_threshold =
     Inr (label p positive_threshold negative_threshold)"

definition assess_risk_outcome :: "string \<Rightarrow> rat \<Rightarrow> rat \<Rightarrow> error + bool \<times> string" where
  "assess_risk_outcome risk_warning_short neg_pct fraud_threshold =
     Inr (assess_risk risk_warning_short neg_pct fraud_threshold)"

subsection \<open>Review tables\<close>

text \<open>
  A \<^verbatim>\<open>pandas.DataFrame\<close> of reviews: the names of its columns and its rows in order. A row
  carries a value for each column the code reads; the value under a name that is not
  among \<open>columns\<close> is never looked at. The index of a table is its positions
  \<open>0, 1, \<dots>\<close> (every index label occurs once).
\<close>

record row =
  content :: cell
  score :: "int option"
  at_time :: "string option"
  polarity :: "rat option"
  sentiment :: cell

record dataframe =
  columns :: "string list"
  rows :: "row list"

text \<open>\<^verbatim>\<open>df[name]\<close>: the column as a list, \<^verbatim>\<open>KeyError\<close> when the table has no such column.\<close>

definition get_column :: "dataframe \<Rightarrow> string \<Rightarrow> (row \<Rightarrow> 'a) \<Rightarrow> error + 'a list" where
  "get_column df name field =
     (if name \<in> set (columns df) then Inr (map field (rows df)) else Inl (KeyError name))"

text \<open>\<^verbatim>\<open>df.empty\<close>: one of the two axes has length 0.\<close>

definition df_empty :: "dataframe \<Rightarrow> bool" where
  "df_empty df = (rows df = [] \<or> columns df = [])"

text \<open>\<^verbatim>\<open>Series.fillna('')\<close> on one cell.\<close>

definition fillna :: "string \<Rightarrow> cell \<Rightarrow> cell" where
  "fillna d v = (case v of None \<Rightarrow> Some d | Some s \<Rightarrow> Some s)"

subsection \<open>Sentiment aggregator (\<^verbatim>\<open>calculate_sentiment_metrics\<close>)\<close>

text \<open>\<^verbatim>\<open>Series.value_counts()\<close>: how often each value occurs; missing values are not
  counted and a value that does not occur has no entry.\<close>

definition value_counts :: "cell list \<Rightarrow> (string \<rightharpoonup> nat)" where
  "value_counts col =
     (\<lambda>k. if Some k \<in> set col then Some (count_list col (Some k)) else None)"

text \<open>\<^verbatim>\<open>counts.get(key, default)\<close>.\<close>

definition counts_get :: "(string \<rightharpoonup> nat) \<Rightarrow> string \<Rightarrow> nat \<Rightarrow> nat" where
  "counts_get counts key dflt = (case counts key of None \<Rightarrow> dflt | Some n \<Rightarrow> n)"

text \<open>The app-details dictionary, of which only the entry \<^verbatim>\<open>'score'\<close> is read: an
  association list whose values are numbers or Python's \<^verbatim>\<open>None\<close>. The argument itself may
  be \<^verbatim>\<open>None\<close>.\<close>

type_synonym app_details = "(string \<times> rat option) list"

text \<open>\<^verbatim>\<open>app_details.get('score')\<close>: \<open>None\<close> for a missing key and for a stored \<^verbatim>\<open>None\<close>.\<close>

definition details_score :: "app_details \<Rightarrow> rat option" where
  "details_score d = (case map_of d ''score'' of None \<Rightarrow> None | Some v \<Rightarrow> v)"

text \<open>The tuple the function returns, with its components named as in the docstring.\<close>

record metrics =
  sentiment_counts :: "string \<rightharpoonup> nat"
  positive_pct :: rat
  negative_pct :: rat
  neutral_pct :: rat
  app_rating_score :: rat
  playstore_score :: rat

definition calculate_sentiment_metrics ::
    "dataframe \<Rightarrow> app_details option \<Rightarrow> error + metrics" where
  "calculate_sentiment_metrics filtered_df app_details =
     (case get_column filtered_df ''sentiment'' sentiment of
        Inl e \<Rightarrow> Inl e
      | Inr col \<Rightarrow>
          (let counts = value_counts col;
               total_reviews = length (rows filtered_df);
               pos_pct = (if total_reviews > 0
                          then rat_of_nat (counts_get counts ''Positive'' 0)
                                 / rat_of_nat total_reviews * 100
                          else 0);
               neg_pct = (if total_reviews > 0
                          then rat_of_nat (counts_get counts ''Negative'' 0)
                                 / rat_of_nat total_reviews * 100
                          else 0);
               neu_pct = (if total_reviews > 0
                          then rat_of_nat (counts_get counts ''Neutral'' 0)
                                 / rat_of_nat total_reviews * 100
                          else 0);
               ps_score = (case app_details of
                             None \<Rightarrow> 0
                           | Some d \<Rightarrow>
                               (if d \<noteq> [] \<and> details_score d \<noteq> None
                                then the (details_score d) * 20 else 0));
               total_sentiment_reviews =
                 counts_get counts ''Positive'' 0 + counts_get counts ''Negative'' 0
                   + counts_get counts ''Neutral'' 0;
               rating =
                 (if total_sentiment_reviews > 0
                  then min 100
                         (pos_pct + (if pos_pct + neg_pct > 0
                                     then neu_pct * (pos_pct / (pos_pct + neg_pct)) else 0))
                  else 0)
           in Inr \<lparr>sentiment_counts = counts, positive_pct = pos_pct, negative_pct = neg_pct,
                    neutral_pct = neu_pct, app_rating_score = rating,
                    playstore_score = ps_score\<rparr>))"

subsection \<open>Classification quality estimator (\<^verbatim>\<open>compute_classification_metrics\<close>)\<close>

text \<open>The local function \<^verbatim>\<open>gt_negative\<close>.\<close>

definition gt_negative :: "cell \<Rightarrow> bool" where
  "gt_negative text =
     (case text of
        None \<Rightarrow> False
      | Some s \<Rightarrow> list_ex (\<lambda>k. str_contains k (str_lower s)) NEGATIVE_KEYWORDS)"

record example =
  ex_content :: string
  ex_predicted :: string
  ex_contains_negative_keyword :: bool
  ex_score :: "int option"
  ex_at :: "string option"

record confusion =
  tp :: nat
  tn :: nat
  fp :: nat
  fn :: nat

record examples =
  tp_examples :: "example list"
  tn_examples :: "example list"
  fp_examples :: "example list"
  fn_examples :: "example list"

record report =
  accuracy :: rat
  precision :: rat
  recall :: rat
  f1 :: rat
  confusion :: confusion
  examples :: examples

text \<open>The dictionary returned for a missing or empty table and from the outer
  \<^verbatim>\<open>except Exception\<close>.\<close>

definition zero_report :: report where
  "zero_report =
     \<lparr>accuracy = 0, precision = 0, recall = 0, f1 = 0,
      confusion = \<lparr>tp = 0, tn = 0, fp = 0, fn = 0\<rparr>,
      examples = \<lparr>tp_examples = [], tn_examples = [], fp_examples = [], fn_examples = []\<rparr>\<rparr>"

text \<open>\<^verbatim>\<open>int(mask.sum())\<close>: the number of \<^verbatim>\<open>True\<close> entries of a boolean column.\<close>

definition mask_sum :: "bool list \<Rightarrow> nat" where
  "mask_sum msk = length (filter (\<lambda>b. b) msk)"

text \<open>\<^verbatim>\<open>df[mask].index.tolist()\<close>: the positions at which the mask holds, in order.\<close>

definition mask_index :: "bool list \<Rightarrow> nat list" where
  "mask_index msk = filter (\<lambda>i. msk ! i) [0..<length msk]"

text \<open>\<^verbatim>\<open>.head(n)\<close>: the first \<open>n\<close> entries; for a negative \<open>n\<close> all but the last \<open>-n\<close>.\<close>

definition head :: "int \<Rightarrow> 'a list \<Rightarrow> 'a list" where
  "head n xs = (if 0 \<le> n then take (nat n) xs else take (length xs - nat (- n)) xs)"

text \<open>\<^verbatim>\<open>df.loc[i]\<close> for an index label \<open>i\<close>.\<close>

definition loc :: "dataframe \<Rightarrow> nat \<Rightarrow> error + row" where
  "loc df i = (if i < length (rows df) then Inr (rows df ! i) else Inl (KeyError ''index''))"

text \<open>The dictionary appended for one row; \<^verbatim>\<open>row.get(name, default)\<close> gives the default
  when the table has no column of that name.\<close>

definition make_example :: "dataframe \<Rightarrow> row \<Rightarrow> example" where
  "make_example df r =
     \<lparr>ex_content = (if ''content'' \<in> set (columns df) then py_str (content r) else []),
      ex_predicted = (if ''sentiment'' \<in> set (columns df) then py_str (sentiment r) else []),
      ex_contains_negative_keyword =
        gt_negative (if ''content'' \<in> set (columns df) then content r else Some []),
      ex_score = (if ''score'' \<in> set (columns df) then score r else None),
      ex_at = (if ''at'' \<in> set (columns df) then at_time r else None)\<rparr>"

text \<open>The inner loop \<^verbatim>\<open>for i in idxs\<close>, appending to one example list. An exception leaves
  the list as it is at that moment and is handed on.\<close>

fun append_examples ::
    "dataframe \<Rightarrow> nat list \<Rightarrow> example list \<Rightarrow> example list \<times> error option" where
  "append_examples df [] acc = (acc, None)"
| "append_examples df (i # idxs) acc =
     (case loc df i of
        Inl e \<Rightarrow> (acc, Some e)
      | Inr r \<Rightarrow> append_examples df idxs (acc @ [make_example df r]))"

text \<open>The loop over the four masks inside the inner \<^verbatim>\<open>try\<close>: the first exception ends it
  (\<^verbatim>\<open>except Exception: pass\<close>) and the lists keep what they hold by then.\<close>

definition build_examples ::
    "dataframe \<Rightarrow> int \<Rightarrow> bool list \<Rightarrow> bool list \<Rightarrow> bool list \<Rightarrow> bool list \<Rightarrow> examples" where
  "build_examples df sample_each tp_mask tn_mask fp_mask fn_mask =
     (case append_examples df (head sample_each (mask_index tp_mask)) [] of
        (xtp, Some e) \<Rightarrow>
          \<lparr>tp_examples = xtp, tn_examples = [], fp_examples = [], fn_examples = []\<rparr>
      | (xtp, None) \<Rightarrow>
     (case append_examples df (head sample_each (mask_index tn_mask)) [] of
        (xtn, Some e) \<Rightarrow>
          \<lparr>tp_examples = xtp, tn_examples = xtn, fp_examples = [], fn_examples = []\<rparr>
      | (xtn, None) \<Rightarrow>
     (case append_examples df (head sample_each (mask_index fp_mask)) [] of
        (xfp, Some e) \<Rightarrow>
          \<lparr>tp_examples = xtp, tn_examples = xtn, fp_examples = xfp, fn_examples = []\<rparr>
      | (xfp, None) \<Rightarrow>
          \<lparr>tp_examples = xtp, tn_examples = xtn, fp_examples = xfp,
           fn_examples =
             fst (append_examples df (head sample_each (mask_index fn_mask)) [])\<rparr>)))"

text \<open>The body of the outer \<^verbatim>\<open>try\<close> for a table that is present: its value, or the
  exception it raises.\<close>

definition classification_body :: "dataframe \<Rightarrow> int \<Rightarrow> error + report" where
  "classification_body filtered_df sample_each =
     (if df_empty filtered_df then Inr zero_report
      else
        (case get_column filtered_df ''content'' content of
           Inl e \<Rightarrow> Inl e
         | Inr content_col \<Rightarrow>
        (case get_column filtered_df ''sentiment'' sentiment of
           Inl e \<Rightarrow> Inl e
         | Inr sentiment_col \<Rightarrow>
          (let y_true = map (\<lambda>v. gt_negative (fillna [] v)) content_col;
               y_pred = map (\<lambda>v. fillna [] v = Some ''Negative'') sentiment_col;
               tp_mask = map2 (\<lambda>t p. t \<and> p) y_true y_pred;
               tn_mask = map2 (\<lambda>t p. \<not> t \<and> \<not> p) y_true y_pred;
               fp_mask = map2 (\<lambda>t p. \<not> t \<and> p) y_true y_pred;
               fn_mask = map2 (\<lambda>t p. t \<and> \<not> p) y_true y_pred;
               ntp = mask_sum tp_mask;
               ntn = mask_sum tn_mask;
               nfp = mask_sum fp_mask;
               nfn = mask_sum fn_mask;
               total = ntp + ntn + nfp + nfn;
               acc = (if total > 0 then rat_of_nat (ntp + ntn) / rat_of_nat total else 0);
               prec = (if ntp + nfp > 0 then rat_of_nat ntp / rat_of_nat (ntp + nfp) else 0);
               rec = (if ntp + nfn > 0 then rat_of_nat ntp / rat_of_nat (ntp + nfn) else 0);
               f = (if prec + rec > 0 then (2 * prec * rec) / (prec + rec) else 0)
           in Inr \<lparr>accuracy = acc, precision = prec, recall = rec, f1 = f,
                    confusion = \<lparr>tp = ntp, tn = ntn, fp = nfp, fn = nfn\<rparr>,
                    examples = build_examples filtered_df sample_each
                                 tp_mask tn_mask fp_mask fn_mask\<rparr>))))"

text \<open>The function itself: \<open>None\<close> is the argument \<^verbatim>\<open>None\<close>, and every exception of the
  body ends in the outer handler.\<close>

definition compute_classification_metrics :: "dataframe option \<Rightarrow> int \<Rightarrow> report" where
  "compute_classification_metrics filtered_df sample_each =
     (case filtered_df of
        None \<Rightarrow> zero_report
      | Some df \<Rightarrow>
          (case classification_body df sample_each of
             Inl e \<Rightarrow> zero_report
           | Inr r \<Rightarrow> r))"

text \<open>The labelling step of \<^verbatim>\<open>analyze_direct\<close>: for a non-empty table with a
  \<^verbatim>\<open>content\<close> column, the columns \<^verbatim>\<open>polarity\<close> and \<^verbatim>\<open>sentiment\<close> are computed from each
  row's own text; any other table is left as it is.\<close>

definition add_column :: "string \<Rightarrow> string list \<Rightarrow> string list" where
  "add_column name cols = (if name \<in> set cols then cols else cols @ [name])"

definition label_reviews :: "(string \<Rightarrow> rat) \<Rightarrow> dataframe \<Rightarrow> dataframe" where
  "label_reviews textblob_polarity df =
     (if ''content'' \<in> set (columns df) \<and> \<not> df_empty df
      then \<lparr>columns = add_column ''sentiment'' (add_column ''polarity'' (columns df)),
            rows = map (\<lambda>r. r\<lparr>polarity := Some (analyze_sentiment textblob_polarity (content r)),
                               sentiment := Some (label (analyze_sentiment textblob_polarity (content r))
                                                    POSITIVE_THRESHOLD NEGATIVE_THRESHOLD)\<rparr>)
                       (rows df)\<rparr>
      else df)"

text \<open>The ground-truth flag and the predicted flag of one row, as the columns \<^verbatim>\<open>y_true\<close>
  and \<^verbatim>\<open>y_pred\<close> hold them.\<close>

definition row_truth :: "row \<Rightarrow> bool" where
  "row_truth r = gt_negative (fillna [] (content r))"

definition row_pred :: "row \<Rightarrow> bool" where
  "row_pred r = (fillna [] (sentiment r) = Some ''Negative'')"

subsection \<open>A sample table\<close>

text \<open>Three reviews as the scraper delivers them (no polarity, no label yet), a stand-in
  for the external polarity model on them, and an empty table that has all columns.\<close>

definition review :: "string \<Rightarrow> row" where
  "review text = \<lparr>content = Some text, score = None, at_time = None, polarity = None, sentiment = None\<rparr>"

definition sample_reviews :: dataframe where
  "sample_reviews =
     \<lparr>columns = [''content'', ''score'', ''thumbsUpCount'', ''at''],
      rows = [review ''This app is a scam'', review ''Great app, love it'',
              review ''It is okay I guess'']\<rparr>"

definition sample_polarity :: "string \<Rightarrow> rat" where
  "sample_polarity s = (if s = ''Great app, love it'' then 13 / 20 else 0)"

definition empty_labelled :: dataframe where
  "empty_labelled =
     \<lparr>columns = [''content'', ''score'', ''thumbsUpCount'', ''at'', ''polarity'', ''sentiment''],
      rows = []\<rparr>"

text \<open>The table \<^verbatim>\<open>analyze_direct\<close> builds when no review was fetched.\<close>

definition no_reviews :: dataframe where
  "no_reviews = \<lparr>columns = [''content'', ''score'', ''thumbsUpCount'', ''at''], rows = []\<rparr>"

section \<open>Properties\<close>

subsection \<open>Strings and the keyword loop\<close>

lemma str_contains_sublist: "str_contains k t = sublist k t"
  by (induction t) (auto simp: sublist_Cons_right)

lemma keyword_loop_hit:
  "k \<in> set ks \<Longrightarrow> str_contains k t \<Longrightarrow> keyword_loop ks t = Some (- (8 / 10))"
  by (induction ks) auto

lemma keyword_loop_iff:
  "keyword_loop ks t = (if list_ex (\<lambda>k. str_contains k t) ks then Some (- (8 / 10)) else None)"
  by (induction ks) auto

lemma lower_scam: "str_lower ''This is a total SCAM'' = ''this is a total scam''"
  by code_simp

lemma kw_scam: "''scam'' \<in> set NEGATIVE_KEYWORDS"
  by (simp add: NEGATIVE_KEYWORDS_def)

lemma sub_scam: "sublist ''scam'' ''this is a total scam''"
  unfolding str_contains_sublist [symmetric] by simp

subsection \<open>Polarity classifier\<close>

text \<open>
  C4: \<^verbatim>\<open>analyze_sentiment\<close> returns exactly \<open>-0.8\<close> for every string whose lower-cased form
  contains a curated negative keyword as a contiguous substring, whatever the rest of the
  text and whatever the external polarity model would say; for an argument that is not a
  string it returns 0.
\<close>

theorem analyze_sentiment_keyword_override:
  "(k \<in> set NEGATIVE_KEYWORDS \<and> sublist k (str_lower s)
      \<longrightarrow> analyze_sentiment textblob_polarity (Some s) = - (8 / 10))
   \<and> analyze_sentiment textblob_polarity None = 0"
proof -
  have "analyze_sentiment textblob_polarity (Some s) = - (8 / 10)"
    if "k \<in> set NEGATIVE_KEYWORDS" and "sublist k (str_lower s)"
  proof -
    from that have "keyword_loop NEGATIVE_KEYWORDS (str_lower s) = Some (- (8 / 10))"
      by (intro keyword_loop_hit) (simp_all add: str_contains_sublist)
    then show ?thesis
      by (simp add: analyze_sentiment_def)
  qed
  moreover have "analyze_sentiment textblob_polarity None = 0"
    by (simp add: analyze_sentiment_def)
  ultimately show ?thesis
    by blast
qed

theorem analyze_sentiment_keyword_override_witness:
  "''scam'' \<in> set NEGATIVE_KEYWORDS \<and> sublist ''scam'' (str_lower ''This is a total SCAM'')
   \<and> analyze_sentiment (\<lambda>s. 1) (Some ''This is a total SCAM'') = - (8 / 10)
   \<and> analyze_sentiment (\<lambda>s. 1) None = 0"
  using analyze_sentiment_keyword_override [of "''scam''" "''This is a total SCAM''" "\<lambda>s. 1"]
  by (simp add: lower_scam kw_scam sub_scam)

subsection \<open>Label derivation\<close>

text \<open>
  C7: the label is Positive exactly when the polarity is strictly above the positive
  threshold, Negative exactly when it is strictly below the negative threshold and not
  Positive, and Neutral otherwise; with the configured thresholds \<open>0.1\<close> and \<open>-0.1\<close> the
  polarities \<open>0.5\<close>, \<open>-0.5\<close>, \<open>0.0\<close> and \<open>0.1\<close> are labelled Positive, Negative, Neutral
  and Neutral.
\<close>

theorem label_thresholds:
  "(label p pt nt = ''Positive'') = (p > pt)
   \<and> (label p pt nt = ''Negative'') = (p < nt \<and> \<not> p > pt)
   \<and> (label p pt nt = ''Neutral'') = (\<not> p > pt \<and> \<not> p < nt)
   \<and> label (1 / 2) POSITIVE_THRESHOLD NEGATIVE_THRESHOLD = ''Positive''
   \<and> label (- (1 / 2)) POSITIVE_THRESHOLD NEGATIVE_THRESHOLD = ''Negative''
   \<and> label 0 POSITIVE_THRESHOLD NEGATIVE_THRESHOLD = ''Neutral''
   \<and> label (1 / 10) POSITIVE_THRESHOLD NEGATIVE_THRESHOLD = ''Neutral''"
  by (simp add: label_def POSITIVE_THRESHOLD_def NEGATIVE_THRESHOLD_def)

subsection \<open>Risk decision\<close>

text \<open>
  C6: the risk flag is the strict comparison of the negative percentage with the
  threshold, so equality gives no risk; the message is the fixed warning when the flag is
  set and a fixed no-risk text otherwise, in \<^verbatim>\<open>main.py\<close> and in \<^verbatim>\<open>update_to_main.py\<close>
  alike. At \<open>(45, 30)\<close> the flag is set, at \<open>(20, 30)\<close> and \<open>(30, 30)\<close> it is not.
\<close>

theorem assess_risk_strict:
  "fst (assess_risk w neg_pct threshold) = (neg_pct > threshold)
   \<and> snd (assess_risk w neg_pct threshold)
       = (if neg_pct > threshold then w else ''No risk indicators'')
   \<and> fst (result_data_risk w neg_pct threshold) = (neg_pct > threshold)
   \<and> snd (result_data_risk w neg_pct threshold)
       = (if neg_pct > threshold then w else ''No significant risk indicators found'')
   \<and> assess_risk w threshold threshold = (False, ''No risk indicators'')
   \<and> assess_risk w 45 30 = (True, w)
   \<and> assess_risk w 20 30 = (False, ''No risk indicators'')
   \<and> assess_risk w 30 30 = (False, ''No risk indicators'')"
  by (simp add: assess_risk_def result_data_risk_def)

subsection \<open>Parameters outside the contract\<close>

text \<open>
  C2 as stated fails: with the negative threshold above the positive one, the labelling
  returns a label, and with a threshold below 0 or above 100 the risk decision returns a
  decision; no error is produced.
\<close>

theorem validation_counterexample:
  "label_outcome 0 (- (1 / 2)) (1 / 2) = Inr ''Positive''
   \<and> assess_risk_outcome RISK_WARNING_SHORT 50 (- 5) = Inr (True, RISK_WARNING_SHORT)
   \<and> assess_risk_outcome RISK_WARNING_SHORT 50 150 = Inr (False, ''No risk indicators'')"
  by (simp add: label_outcome_def label_def assess_risk_outcome_def assess_risk_def)

text \<open>
  C2, amended: the labelling and the risk decision validate nothing. For all parameters
  they return the result of the same strict comparisons, also when the negative threshold
  exceeds the positive one or the threshold lies outside \<open>[0, 100]\<close>. The only treatment of
  an out-of-range threshold is in the search route, which clamps the submitted value into
  \<open>[1, 100]\<close> before storing it.
\<close>

theorem no_parameter_validation:
  "label_outcome p pt nt
     = Inr (if p > pt then ''Positive'' else if p < nt then ''Negative'' else ''Neutral'')
   \<and> assess_risk_outcome w neg_pct threshold
     = Inr (neg_pct > threshold, if neg_pct > threshold then w else ''No risk indicators'')
   \<and> 1 \<le> store_fraud_threshold threshold \<and> store_fraud_threshold threshold \<le> 100"
  by (simp add: label_outcome_def label_def assess_risk_outcome_def assess_risk_def
      store_fraud_threshold_def)

subsection \<open>Counting labels\<close>

lemma counts_get_value_counts:
  "counts_get (value_counts col) k 0 = count_list col (Some k)"
  by (simp add: counts_get_def value_counts_def count_list_0_iff)

lemma count_three_labels:
  "\<forall>c \<in> set col. c \<in> {Some ''Positive'', Some ''Negative'', Some ''Neutral''} \<Longrightarrow>
   count_list col (Some ''Positive'') + count_list col (Some ''Negative'')
     + count_list col (Some ''Neutral'') = length col"
  by (induction col) auto

lemma three_shares:
  fixes a b c n :: nat
  assumes "a + b + c = n" and "0 < n"
  shows "rat_of_nat a / rat_of_nat n * 100 + rat_of_nat b / rat_of_nat n * 100
           + rat_of_nat c / rat_of_nat n * 100 = 100"
proof -
  have "rat_of_nat a / rat_of_nat n * 100 + rat_of_nat b / rat_of_nat n * 100
           + rat_of_nat c / rat_of_nat n * 100
        = rat_of_nat (a + b + c) / rat_of_nat n * 100"
    by (simp add: add_divide_distrib distrib_right)
  also have "\<dots> = 100"
    using assms by simp
  finally show ?thesis .
qed

lemma calc_fields:
  assumes "''sentiment'' \<in> set (columns df)"
  shows "\<exists>m. calculate_sentiment_metrics df ad = Inr m
     \<and> positive_pct m = (if rows df = [] then 0
          else rat_of_nat (count_list (map sentiment (rows df)) (Some ''Positive''))
                 / rat_of_nat (length (rows df)) * 100)
     \<and> negative_pct m = (if rows df = [] then 0
          else rat_of_nat (count_list (map sentiment (rows df)) (Some ''Negative''))
                 / rat_of_nat (length (rows df)) * 100)
     \<and> neutral_pct m = (if rows df = [] then 0
          else rat_of_nat (count_list (map sentiment (rows df)) (Some ''Neutral''))
                 / rat_of_nat (length (rows df)) * 100)
     \<and> playstore_score m = (case ad of None \<Rightarrow> 0 | Some d \<Rightarrow>
          (case details_score d of None \<Rightarrow> 0 | Some s \<Rightarrow> s * 20))
     \<and> app_rating_score m =
         (if count_list (map sentiment (rows df)) (Some ''Positive'')
              + count_list (map sentiment (rows df)) (Some ''Negative'')
              + count_list (map sentiment (rows df)) (Some ''Neutral'') > 0
          then min 100 (positive_pct m + (if positive_pct m + negative_pct m > 0
                 then neutral_pct m * (positive_pct m / (positive_pct m + negative_pct m)) else 0))
          else 0)"
proof -
  let ?col = "map sentiment (rows df)"
  let ?n = "rat_of_nat (length (rows df))"
  define pos where "pos = (if 0 < length (rows df)
      then rat_of_nat (count_list ?col (Some ''Positive'')) / ?n * 100 else 0)"
  define neg where "neg = (if 0 < length (rows df)
      then rat_of_nat (count_list ?col (Some ''Negative'')) / ?n * 100 else 0)"
  define neu where "neu = (if 0 < length (rows df)
      then rat_of_nat (count_list ?col (Some ''Neutral'')) / ?n * 100 else 0)"
  define ps where "ps = (case ad of None \<Rightarrow> 0
      | Some d \<Rightarrow> (case details_score d of None \<Rightarrow> 0 | Some s \<Rightarrow> s * 20))"
  define rating where "rating =
      (if count_list ?col (Some ''Positive'') + count_list ?col (Some ''Negative'')
            + count_list ?col (Some ''Neutral'') > 0
       then min 100 (pos + (if pos + neg > 0 then neu * (pos / (pos + neg)) else 0))
       else 0)"
  define m where "m = \<lparr>sentiment_counts = value_counts ?col, positive_pct = pos,
      negative_pct = neg, neutral_pct = neu, app_rating_score = rating, playstore_score = ps\<rparr>"
  have col: "get_column df ''sentiment'' sentiment = Inr ?col"
    using assms by (simp add: get_column_def)
  have ps': "(case ad of None \<Rightarrow> 0
             | Some d \<Rightarrow> if d \<noteq> [] \<and> details_score d \<noteq> None
                        then the (details_score d) * 20 else 0) = ps"
    unfolding ps_def by (auto simp: details_score_def split: option.splits)
  have calc: "calculate_sentiment_metrics df ad = Inr m"
    unfolding calculate_sentiment_metrics_def col Let_def counts_get_value_counts ps'
      m_def rating_def pos_def neg_def neu_def
    by (simp only: sum.case)
  have fields: "positive_pct m = pos" "negative_pct m = neg" "neutral_pct m = neu"
    "app_rating_score m = rating" "playstore_score m = ps"
    by (simp_all add: m_def)
  have "pos = (if rows df = [] then 0
          else rat_of_nat (count_list ?col (Some ''Positive'')) / ?n * 100)"
    and "neg = (if rows df = [] then 0
          else rat_of_nat (count_list ?col (Some ''Negative'')) / ?n * 100)"
    and "neu = (if rows df = [] then 0
          else rat_of_nat (count_list ?col (Some ''Neutral'')) / ?n * 100)"
    by (simp_all add: pos_def neg_def neu_def)
  with calc show ?thesis
    unfolding fields by (intro exI [of _ m] conjI) (simp_all only: fields rating_def ps_def)
qed

lemma sample_labels:
  "map sentiment (rows (label_reviews sample_polarity sample_reviews))
     = [Some ''Negative'', Some ''Positive'', Some ''Neutral'']"
  by code_simp

lemma sample_columns:
  "columns (label_reviews sample_polarity sample_reviews)
     = [''content'', ''score'', ''thumbsUpCount'', ''at'', ''polarity'', ''sentiment'']"
  by code_simp

lemma sample_values:
  "map_sum id (\<lambda>m. (positive_pct m, negative_pct m, neutral_pct m, app_rating_score m))
     (calculate_sentiment_metrics (label_reviews sample_polarity sample_reviews) None)
   = Inr (100 / 3, 100 / 3, 100 / 3, 50)"
  by code_simp

lemma no_reviews_raises:
  "calculate_sentiment_metrics (label_reviews textblob_polarity no_reviews) ad
     = Inl (KeyError ''sentiment'')"
  by (simp add: calculate_sentiment_metrics_def label_reviews_def no_reviews_def df_empty_def
      get_column_def)

subsection \<open>Sentiment aggregator\<close>

text \<open>
  C1 as stated fails: for an empty table and app details with the store score \<open>4.5\<close>,
  the store-rating percentage is 90, not 0.
\<close>

theorem empty_store_rating_counterexample:
  "map_sum id playstore_score
     (calculate_sentiment_metrics empty_labelled (Some [(''score'', Some (9 / 2))])) = Inr 90"
  by (simp add: calculate_sentiment_metrics_def get_column_def empty_labelled_def Let_def
      details_score_def)

text \<open>
  C1, amended: for an empty labelled collection (a table with the sentiment column and no
  rows) the aggregate returns without error, the three percentages and the composite
  rating score are 0, and the store-rating percentage does not depend on the reviews: it
  is 20 times the store score when app details with a non-null score are supplied, and 0
  otherwise.
\<close>

theorem empty_collection_metrics:
  assumes "''sentiment'' \<in> set (columns df)" and "rows df = []"
  shows "\<exists>m. calculate_sentiment_metrics df ad = Inr m
     \<and> positive_pct m = 0 \<and> negative_pct m = 0 \<and> neutral_pct m = 0
     \<and> app_rating_score m = 0
     \<and> playstore_score m = (case ad of None \<Rightarrow> 0 | Some d \<Rightarrow>
          (case details_score d of None \<Rightarrow> 0 | Some s \<Rightarrow> s * 20))"
  using calc_fields [OF assms(1), of ad] assms(2) by auto

theorem empty_collection_metrics_witness:
  "\<exists>m. calculate_sentiment_metrics empty_labelled (Some [(''score'', Some (9 / 2))]) = Inr m
     \<and> positive_pct m = 0 \<and> negative_pct m = 0 \<and> neutral_pct m = 0
     \<and> app_rating_score m = 0 \<and> playstore_score m = 90"
  using empty_collection_metrics [of empty_labelled "Some [(''score'', Some (9 / 2))]"]
  by (simp add: empty_labelled_def details_score_def)

text \<open>
  C3: for a labelled collection (every label is one of Positive, Negative, Neutral) that
  is not empty, the three percentages add up to exactly 100; for the empty one all three
  are 0.
\<close>

theorem percentages_sum_to_100:
  assumes "''sentiment'' \<in> set (columns df)"
    and "\<forall>r \<in> set (rows df).
           sentiment r \<in> {Some ''Positive'', Some ''Negative'', Some ''Neutral''}"
  shows "\<exists>m. calculate_sentiment_metrics df ad = Inr m
     \<and> (if rows df = []
         then positive_pct m = 0 \<and> negative_pct m = 0 \<and> neutral_pct m = 0
         else positive_pct m + negative_pct m + neutral_pct m = 100)"
proof -
  obtain m where m: "calculate_sentiment_metrics df ad = Inr m"
    and pos: "positive_pct m = (if rows df = [] then 0
          else rat_of_nat (count_list (map sentiment (rows df)) (Some ''Positive''))
                 / rat_of_nat (length (rows df)) * 100)"
    and neg: "negative_pct m = (if rows df = [] then 0
          else rat_of_nat (count_list (map sentiment (rows df)) (Some ''Negative''))
                 / rat_of_nat (length (rows df)) * 100)"
    and neu: "neutral_pct m = (if rows df = [] then 0
          else rat_of_nat (count_list (map sentiment (rows df)) (Some ''Neutral''))
                 / rat_of_nat (length (rows df)) * 100)"
    using calc_fields [OF assms(1), of ad] by blast
  show ?thesis
  proof (cases "rows df = []")
    case True
    with m pos neg neu show ?thesis by simp
  next
    case False
    have "count_list (map sentiment (rows df)) (Some ''Positive'')
            + count_list (map sentiment (rows df)) (Some ''Negative'')
            + count_list (map sentiment (rows df)) (Some ''Neutral'') = length (rows df)"
      using count_three_labels [of "map sentiment (rows df)"] assms(2) by simp
    moreover have "0 < length (rows df)"
      using False by simp
    ultimately have "positive_pct m + negative_pct m + neutral_pct m = 100"
      using False pos neg neu by (simp only: if_False three_shares)
    with m False show ?thesis by simp
  qed
qed

theorem percentages_sum_to_100_witness:
  "\<exists>m. calculate_sentiment_metrics (label_reviews sample_polarity sample_reviews) None = Inr m
     \<and> positive_pct m + negative_pct m + neutral_pct m = 100
     \<and> positive_pct m = 100 / 3 \<and> negative_pct m = 100 / 3 \<and> neutral_pct m = 100 / 3"
proof -
  let ?df = "label_reviews sample_polarity sample_reviews"
  have c: "''sentiment'' \<in> set (columns ?df)"
    by (simp add: sample_columns)
  have "set (map sentiment (rows ?df)) \<subseteq> {Some ''Positive'', Some ''Negative'', Some ''Neutral''}"
    by (simp add: sample_labels)
  then have l: "\<forall>r \<in> set (rows ?df).
           sentiment r \<in> {Some ''Positive'', Some ''Negative'', Some ''Neutral''}"
    by auto
  have n: "rows ?df \<noteq> []"
    using sample_labels by auto
  from percentages_sum_to_100 [OF c l, of None] n obtain m
    where m: "calculate_sentiment_metrics ?df None = Inr m"
      and s: "positive_pct m + negative_pct m + neutral_pct m = 100"
    by auto
  from sample_values m
  have "positive_pct m = 100 / 3" "negative_pct m = 100 / 3" "neutral_pct m = 100 / 3"
    by simp_all
  with m s show ?thesis
    by blast
qed

text \<open>
  C5: for a collection with at least one review the composite rating score is
  \<open>min(100, positive_pct + credit)\<close>, where the credit is
  \<open>neutral_pct * (positive_pct / (positive_pct + negative_pct))\<close> when
  \<open>positive_pct + negative_pct > 0\<close> and 0 otherwise; the score lies between 0 and 100.
\<close>

theorem composite_rating_formula:
  assumes "''sentiment'' \<in> set (columns df)" and "rows df \<noteq> []"
  shows "\<exists>m. calculate_sentiment_metrics df ad = Inr m
     \<and> app_rating_score m =
           min 100 (positive_pct m
                    + (if positive_pct m + negative_pct m > 0
                       then neutral_pct m * (positive_pct m / (positive_pct m + negative_pct m))
                       else 0))
     \<and> 0 \<le> app_rating_score m \<and> app_rating_score m \<le> 100"
proof -
  let ?P = "count_list (map sentiment (rows df)) (Some ''Positive'')"
  let ?N = "count_list (map sentiment (rows df)) (Some ''Negative'')"
  let ?U = "count_list (map sentiment (rows df)) (Some ''Neutral'')"
  let ?n = "rat_of_nat (length (rows df))"
  obtain m where m: "calculate_sentiment_metrics df ad = Inr m"
    and pos: "positive_pct m = rat_of_nat ?P / ?n * 100"
    and neg: "negative_pct m = rat_of_nat ?N / ?n * 100"
    and neu: "neutral_pct m = rat_of_nat ?U / ?n * 100"
    and rating: "app_rating_score m =
         (if ?P + ?N + ?U > 0
          then min 100 (positive_pct m + (if positive_pct m + negative_pct m > 0
                 then neutral_pct m * (positive_pct m / (positive_pct m + negative_pct m)) else 0))
          else 0)"
    using calc_fields [OF assms(1), of ad] assms(2) by auto
  let ?credit = "if positive_pct m + negative_pct m > 0
                 then neutral_pct m * (positive_pct m / (positive_pct m + negative_pct m)) else 0"
  have nonneg: "0 \<le> positive_pct m" "0 \<le> negative_pct m" "0 \<le> neutral_pct m"
    by (simp_all add: pos neg neu)
  have credit: "0 \<le> ?credit"
    using nonneg by simp
  have formula: "app_rating_score m = min 100 (positive_pct m + ?credit)"
  proof (cases "?P + ?N + ?U > 0")
    case True
    then show ?thesis using rating by simp
  next
    case False
    then have "positive_pct m = 0" "negative_pct m = 0" "neutral_pct m = 0"
      by (simp_all add: pos neg neu)
    with False rating show ?thesis by simp
  qed
  have "0 \<le> positive_pct m + ?credit"
    using nonneg(1) credit by linarith
  then have "0 \<le> app_rating_score m" "app_rating_score m \<le> 100"
    by (simp_all add: formula)
  with m formula show ?thesis by blast
qed

theorem composite_rating_formula_witness:
  "\<exists>m. calculate_sentiment_metrics (label_reviews sample_polarity sample_reviews) None = Inr m
     \<and> app_rating_score m =
           min 100 (positive_pct m
                    + (if positive_pct m + negative_pct m > 0
                       then neutral_pct m * (positive_pct m / (positive_pct m + negative_pct m))
                       else 0))
     \<and> 0 \<le> app_rating_score m \<and> app_rating_score m \<le> 100
     \<and> app_rating_score m = 50"
proof -
  let ?df = "label_reviews sample_polarity sample_reviews"
  have c: "''sentiment'' \<in> set (columns ?df)"
    by (simp add: sample_columns)
  have n: "rows ?df \<noteq> []"
    using sample_labels by auto
  from composite_rating_formula [OF c n, of None] obtain m
    where m: "calculate_sentiment_metrics ?df None = Inr m"
      and f: "app_rating_score m =
           min 100 (positive_pct m
                    + (if positive_pct m + negative_pct m > 0
                       then neutral_pct m * (positive_pct m / (positive_pct m + negative_pct m))
                       else 0))"
      and r: "0 \<le> app_rating_score m" "app_rating_score m \<le> 100"
    by blast
  from sample_values m have "app_rating_score m = 50"
    by simp
  with m f r show ?thesis
    by blast
qed

subsection \<open>Classification quality estimator\<close>

lemma map2_same: "map2 f (map g xs) (map h xs) = map (\<lambda>x. f (g x) (h x)) xs"
  by (induction xs) auto

lemma mask_sum_map: "mask_sum (map P xs) = length (filter P xs)"
  by (simp add: mask_sum_def length_filter_map comp_def)

lemma four_cells:
  "length (filter (\<lambda>x. T x \<and> P x) xs) + length (filter (\<lambda>x. \<not> T x \<and> \<not> P x) xs)
     + length (filter (\<lambda>x. \<not> T x \<and> P x) xs) + length (filter (\<lambda>x. T x \<and> \<not> P x) xs)
   = length xs"
  by (induction xs) auto

lemma mask_index_map:
  "mask_index (map P xs) = filter (\<lambda>i. P (xs ! i)) [0..<length xs]"
  by (auto simp: mask_index_def intro: filter_cong)

lemma nth_mask_index: "map ((!) xs) (mask_index (map P xs)) = filter P xs"
proof -
  have "filter P (map ((!) xs) [0..<length xs]) = map ((!) xs) (mask_index (map P xs))"
    by (simp add: filter_map comp_def mask_index_map)
  then show ?thesis
    by (simp add: map_nth)
qed

lemma mask_index_bound: "i \<in> set (mask_index msk) \<Longrightarrow> i < length msk"
  by (simp add: mask_index_def)

lemma set_head: "set (head n xs) \<subseteq> set xs"
  by (auto simp: head_def dest: in_set_takeD)

lemma map_head: "map f (head n xs) = head n (map f xs)"
  by (simp add: head_def take_map)

lemma length_head: "0 \<le> n \<Longrightarrow> length (head n xs) \<le> nat n"
  by (simp add: head_def)

lemma append_examples_ok:
  "\<forall>i \<in> set idxs. i < length (rows df) \<Longrightarrow>
   append_examples df idxs acc = (acc @ map (\<lambda>i. make_example df (rows df ! i)) idxs, None)"
  by (induction idxs arbitrary: acc) (auto simp: loc_def)

lemma cell_examples:
  "append_examples df (head n (mask_index (map P (rows df)))) []
     = (map (make_example df) (head n (filter P (rows df))), None)"
proof -
  let ?idxs = "head n (mask_index (map P (rows df)))"
  have "\<forall>i \<in> set ?idxs. i < length (rows df)"
    using set_head [of n "mask_index (map P (rows df))"] mask_index_bound [of _ "map P (rows df)"]
    by auto
  then have "append_examples df ?idxs [] = (map (\<lambda>i. make_example df (rows df ! i)) ?idxs, None)"
    by (simp add: append_examples_ok)
  also have "map (\<lambda>i. make_example df (rows df ! i)) ?idxs
               = map (make_example df) (map ((!) (rows df)) ?idxs)"
    by simp
  also have "map ((!) (rows df)) ?idxs = head n (filter P (rows df))"
    by (simp add: map_head nth_mask_index)
  finally show ?thesis .
qed

lemma build_examples_cells:
  "build_examples df n (map A (rows df)) (map B (rows df)) (map C (rows df)) (map D (rows df))
     = \<lparr>tp_examples = map (make_example df) (head n (filter A (rows df))),
        tn_examples = map (make_example df) (head n (filter B (rows df))),
        fp_examples = map (make_example df) (head n (filter C (rows df))),
        fn_examples = map (make_example df) (head n (filter D (rows df)))\<rparr>"
  by (simp add: build_examples_def cell_examples)


lemma masks_as_rows:
  "map2 f (map (\<lambda>v. gt_negative (fillna [] v)) (map content rs))
          (map (\<lambda>v. fillna [] v = Some ''Negative'') (map sentiment rs))
   = map (\<lambda>r. f (row_truth r) (row_pred r)) rs"
  by (induction rs) (simp_all add: row_truth_def row_pred_def)

lemma body_fields:
  assumes "''content'' \<in> set (columns df)" and "''sentiment'' \<in> set (columns df)"
    and "\<not> df_empty df"
  shows "\<exists>r. classification_body df n = Inr r
     \<and> tp (confusion r) = length (filter (\<lambda>r. row_truth r \<and> row_pred r) (rows df))
     \<and> tn (confusion r) = length (filter (\<lambda>r. \<not> row_truth r \<and> \<not> row_pred r) (rows df))
     \<and> fp (confusion r) = length (filter (\<lambda>r. \<not> row_truth r \<and> row_pred r) (rows df))
     \<and> fn (confusion r) = length (filter (\<lambda>r. row_truth r \<and> \<not> row_pred r) (rows df))
     \<and> accuracy r =
           (if tp (confusion r) + tn (confusion r) + fp (confusion r) + fn (confusion r) > 0
            then rat_of_nat (tp (confusion r) + tn (confusion r))
                   / rat_of_nat (tp (confusion r) + tn (confusion r) + fp (confusion r)
                                   + fn (confusion r))
            else 0)
     \<and> precision r =
           (if tp (confusion r) + fp (confusion r) > 0
            then rat_of_nat (tp (confusion r)) / rat_of_nat (tp (confusion r) + fp (confusion r))
            else 0)
     \<and> recall r =
           (if tp (confusion r) + fn (confusion r) > 0
            then rat_of_nat (tp (confusion r)) / rat_of_nat (tp (confusion r) + fn (confusion r))
            else 0)
     \<and> f1 r = (if precision r + recall r > 0
                then (2 * precision r * recall r) / (precision r + recall r) else 0)
     \<and> examples r =
           \<lparr>tp_examples = map (make_example df)
                           (head n (filter (\<lambda>r. row_truth r \<and> row_pred r) (rows df))),
            tn_examples = map (make_example df)
                           (head n (filter (\<lambda>r. \<not> row_truth r \<and> \<not> row_pred r) (rows df))),
            fp_examples = map (make_example df)
                           (head n (filter (\<lambda>r. \<not> row_truth r \<and> row_pred r) (rows df))),
            fn_examples = map (make_example df)
                           (head n (filter (\<lambda>r. row_truth r \<and> \<not> row_pred r) (rows df)))\<rparr>"
proof -
  define ntp where "ntp = length (filter (\<lambda>r. row_truth r \<and> row_pred r) (rows df))"
  define ntn where "ntn = length (filter (\<lambda>r. \<not> row_truth r \<and> \<not> row_pred r) (rows df))"
  define nfp where "nfp = length (filter (\<lambda>r. \<not> row_truth r \<and> row_pred r) (rows df))"
  define nfn where "nfn = length (filter (\<lambda>r. row_truth r \<and> \<not> row_pred r) (rows df))"
  define acc where "acc = (if ntp + ntn + nfp + nfn > 0
      then rat_of_nat (ntp + ntn) / rat_of_nat (ntp + ntn + nfp + nfn) else 0)"
  define prec where "prec = (if ntp + nfp > 0
      then rat_of_nat ntp / rat_of_nat (ntp + nfp) else 0)"
  define rec where "rec = (if ntp + nfn > 0
      then rat_of_nat ntp / rat_of_nat (ntp + nfn) else 0)"
  define f where "f = (if prec + rec > 0 then (2 * prec * rec) / (prec + rec) else 0)"
  define ex where "ex =
     \<lparr>tp_examples = map (make_example df)
                     (head n (filter (\<lambda>r. row_truth r \<and> row_pred r) (rows df))),
      tn_examples = map (make_example df)
                     (head n (filter (\<lambda>r. \<not> row_truth r \<and> \<not> row_pred r) (rows df))),
      fp_examples = map (make_example df)
                     (head n (filter (\<lambda>r. \<not> row_truth r \<and> row_pred r) (rows df))),
      fn_examples = map (make_example df)
                     (head n (filter (\<lambda>r. row_truth r \<and> \<not> row_pred r) (rows df)))\<rparr>"
  define r where "r = \<lparr>accuracy = acc, precision = prec, recall = rec, f1 = f,
      confusion = \<lparr>tp = ntp, tn = ntn, fp = nfp, fn = nfn\<rparr>, examples = ex\<rparr>"
  have c1: "get_column df ''content'' content = Inr (map content (rows df))"
    using assms(1) by (simp add: get_column_def)
  have c2: "get_column df ''sentiment'' sentiment = Inr (map sentiment (rows df))"
    using assms(2) by (simp add: get_column_def)
  have body: "classification_body df n = Inr r"
    unfolding classification_body_def c1 c2 Let_def sum.case masks_as_rows
    unfolding mask_sum_map build_examples_cells
    unfolding r_def f_def rec_def prec_def acc_def ex_def ntp_def ntn_def nfp_def nfn_def
    using assms(3) by (simp only: if_False)
  have fields: "tp (confusion r) = ntp" "tn (confusion r) = ntn" "fp (confusion r) = nfp"
    "fn (confusion r) = nfn" "accuracy r = acc" "precision r = prec" "recall r = rec"
    "f1 r = f" "examples r = ex"
    by (simp_all add: r_def)
  show ?thesis
    unfolding fields
    by (intro exI [of _ r] conjI)
       (simp_all only: body fields ntp_def ntn_def nfp_def nfn_def acc_def prec_def rec_def
          f_def ex_def)
qed


lemma compute_without_columns:
  assumes "''content'' \<notin> set (columns df) \<or> ''sentiment'' \<notin> set (columns df)"
  shows "compute_classification_metrics (Some df) n = zero_report"
  using assms
  by (auto simp: compute_classification_metrics_def classification_body_def get_column_def)

lemma compute_empty:
  "df_empty df \<Longrightarrow> compute_classification_metrics (Some df) n = zero_report"
  by (simp add: compute_classification_metrics_def classification_body_def)

lemma compute_body:
  "classification_body df n = Inr r \<Longrightarrow> compute_classification_metrics (Some df) n = r"
  by (simp add: compute_classification_metrics_def)

lemma head_Nil: "head n [] = []"
  by (simp add: head_def)

lemma compute_counts:
  assumes "''content'' \<in> set (columns df)" and "''sentiment'' \<in> set (columns df)"
  shows "tp (confusion (compute_classification_metrics (Some df) n))
           = length (filter (\<lambda>r. row_truth r \<and> row_pred r) (rows df))
     \<and> tn (confusion (compute_classification_metrics (Some df) n))
           = length (filter (\<lambda>r. \<not> row_truth r \<and> \<not> row_pred r) (rows df))
     \<and> fp (confusion (compute_classification_metrics (Some df) n))
           = length (filter (\<lambda>r. \<not> row_truth r \<and> row_pred r) (rows df))
     \<and> fn (confusion (compute_classification_metrics (Some df) n))
           = length (filter (\<lambda>r. row_truth r \<and> \<not> row_pred r) (rows df))"
proof (cases "df_empty df")
  case True
  with assms(1) have "rows df = []"
    by (auto simp: df_empty_def)
  with True show ?thesis
    by (simp add: compute_empty zero_report_def)
next
  case False
  from body_fields [OF assms False, of n] obtain r where
    "classification_body df n = Inr r"
    "tp (confusion r) = length (filter (\<lambda>r. row_truth r \<and> row_pred r) (rows df))"
    "tn (confusion r) = length (filter (\<lambda>r. \<not> row_truth r \<and> \<not> row_pred r) (rows df))"
    "fp (confusion r) = length (filter (\<lambda>r. \<not> row_truth r \<and> row_pred r) (rows df))"
    "fn (confusion r) = length (filter (\<lambda>r. row_truth r \<and> \<not> row_pred r) (rows df))"
    by blast
  then show ?thesis
    by (simp add: compute_body)
qed

lemma compute_examples:
  assumes "''content'' \<in> set (columns df)" and "''sentiment'' \<in> set (columns df)"
  shows "examples (compute_classification_metrics (Some df) n) =
           \<lparr>tp_examples = map (make_example df)
                           (head n (filter (\<lambda>r. row_truth r \<and> row_pred r) (rows df))),
            tn_examples = map (make_example df)
                           (head n (filter (\<lambda>r. \<not> row_truth r \<and> \<not> row_pred r) (rows df))),
            fp_examples = map (make_example df)
                           (head n (filter (\<lambda>r. \<not> row_truth r \<and> row_pred r) (rows df))),
            fn_examples = map (make_example df)
                           (head n (filter (\<lambda>r. row_truth r \<and> \<not> row_pred r) (rows df)))\<rparr>"
proof (cases "df_empty df")
  case True
  with assms(1) have "rows df = []"
    by (auto simp: df_empty_def)
  with True show ?thesis
    by (simp add: compute_empty zero_report_def head_Nil)
next
  case False
  from body_fields [OF assms False, of n] show ?thesis
    by (auto simp: compute_body)
qed

lemma compute_metrics:
  fixes df n
  defines "r \<equiv> compute_classification_metrics df n"
  shows "accuracy r =
           (if tp (confusion r) + tn (confusion r) + fp (confusion r) + fn (confusion r) > 0
            then rat_of_nat (tp (confusion r) + tn (confusion r))
                   / rat_of_nat (tp (confusion r) + tn (confusion r) + fp (confusion r)
                                   + fn (confusion r))
            else 0)"
    and "precision r =
           (if tp (confusion r) + fp (confusion r) > 0
            then rat_of_nat (tp (confusion r)) / rat_of_nat (tp (confusion r) + fp (confusion r))
            else 0)"
    and "recall r =
           (if tp (confusion r) + fn (confusion r) > 0
            then rat_of_nat (tp (confusion r)) / rat_of_nat (tp (confusion r) + fn (confusion r))
            else 0)"
    and "f1 r = (if precision r + recall r > 0
                then (2 * precision r * recall r) / (precision r + recall r) else 0)"
proof -
  have z: "r = zero_report \<or>
    (\<exists>d. df = Some d \<and> ''content'' \<in> set (columns d) \<and> ''sentiment'' \<in> set (columns d)
        \<and> \<not> df_empty d)"
  proof (cases df)
    case None
    then show ?thesis by (simp add: r_def compute_classification_metrics_def)
  next
    case (Some d)
    then show ?thesis
      using compute_without_columns [of d n] compute_empty [of d n] by (auto simp: r_def)
  qed
  have all: "accuracy r =
           (if tp (confusion r) + tn (confusion r) + fp (confusion r) + fn (confusion r) > 0
            then rat_of_nat (tp (confusion r) + tn (confusion r))
                   / rat_of_nat (tp (confusion r) + tn (confusion r) + fp (confusion r)
                                   + fn (confusion r))
            else 0)
    \<and> precision r =
           (if tp (confusion r) + fp (confusion r) > 0
            then rat_of_nat (tp (confusion r)) / rat_of_nat (tp (confusion r) + fp (confusion r))
            else 0)
    \<and> recall r =
           (if tp (confusion r) + fn (confusion r) > 0
            then rat_of_nat (tp (confusion r)) / rat_of_nat (tp (confusion r) + fn (confusion r))
            else 0)
    \<and> f1 r = (if precision r + recall r > 0
                then (2 * precision r * recall r) / (precision r + recall r) else 0)"
  proof (cases "r = zero_report")
    case True
    then show ?thesis by (simp add: zero_report_def)
  next
    case False
    with z obtain d where d: "df = Some d" "''content'' \<in> set (columns d)"
      "''sentiment'' \<in> set (columns d)" "\<not> df_empty d"
      by blast
    from body_fields [OF d(2,3,4), of n] obtain r' where
      r': "classification_body d n = Inr r'" and
      m: "accuracy r' =
           (if tp (confusion r') + tn (confusion r') + fp (confusion r') + fn (confusion r') > 0
            then rat_of_nat (tp (confusion r') + tn (confusion r'))
                   / rat_of_nat (tp (confusion r') + tn (confusion r') + fp (confusion r')
                                   + fn (confusion r'))
            else 0)"
        "precision r' =
           (if tp (confusion r') + fp (confusion r') > 0
            then rat_of_nat (tp (confusion r')) / rat_of_nat (tp (confusion r') + fp (confusion r'))
            else 0)"
        "recall r' =
           (if tp (confusion r') + fn (confusion r') > 0
            then rat_of_nat (tp (confusion r')) / rat_of_nat (tp (confusion r') + fn (confusion r'))
            else 0)"
        "f1 r' = (if precision r' + recall r' > 0
                then (2 * precision r' * recall r') / (precision r' + recall r') else 0)"
      by blast
    have "r = r'"
      using r' d(1) by (simp add: r_def compute_body)
    with m show ?thesis by blast
  qed
  from all show "accuracy r =
           (if tp (confusion r) + tn (confusion r) + fp (confusion r) + fn (confusion r) > 0
            then rat_of_nat (tp (confusion r) + tn (confusion r))
                   / rat_of_nat (tp (confusion r) + tn (confusion r) + fp (confusion r)
                                   + fn (confusion r))
            else 0)" by blast
  from all show "precision r =
           (if tp (confusion r) + fp (confusion r) > 0
            then rat_of_nat (tp (confusion r)) / rat_of_nat (tp (confusion r) + fp (confusion r))
            else 0)" by blast
  from all show "recall r =
           (if tp (confusion r) + fn (confusion r) > 0
            then rat_of_nat (tp (confusion r)) / rat_of_nat (tp (confusion r) + fn (confusion r))
            else 0)" by blast
  from all show "f1 r = (if precision r + recall r > 0
                then (2 * precision r * recall r) / (precision r + recall r) else 0)" by blast
qed


lemma gt_negative_empty: "\<not> gt_negative (Some [])"
  by (simp add: gt_negative_def str_lower_def NEGATIVE_KEYWORDS_def)

lemma truth_implies_pred:
  assumes "row_truth r"
    and "sentiment r = Some (label (analyze_sentiment textblob_polarity (content r))
                               POSITIVE_THRESHOLD NEGATIVE_THRESHOLD)"
  shows "row_pred r"
proof (cases "content r")
  case None
  with assms(1) show ?thesis
    by (simp add: row_truth_def fillna_def gt_negative_empty)
next
  case (Some s)
  with assms(1) have "list_ex (\<lambda>k. str_contains k (str_lower s)) NEGATIVE_KEYWORDS"
    by (simp add: row_truth_def fillna_def gt_negative_def)
  then have "keyword_loop NEGATIVE_KEYWORDS (str_lower s) = Some (- (8 / 10))"
    by (simp only: keyword_loop_iff if_True)
  then have "analyze_sentiment textblob_polarity (content r) = - (8 / 10)"
    by (simp add: analyze_sentiment_def Some)
  then have "sentiment r = Some ''Negative''"
    using assms(2) by (simp add: label_def POSITIVE_THRESHOLD_def NEGATIVE_THRESHOLD_def)
  then show ?thesis
    by (simp add: row_pred_def fillna_def)
qed

lemma label_reviews_derived:
  assumes "''content'' \<in> set (columns df)" and "\<not> df_empty df"
  shows "\<forall>r \<in> set (rows (label_reviews textblob_polarity df)).
           sentiment r = Some (label (analyze_sentiment textblob_polarity (content r))
                                 POSITIVE_THRESHOLD NEGATIVE_THRESHOLD)"
  using assms by (auto simp: label_reviews_def)

lemma sample_report:
  "compute_classification_metrics (Some (label_reviews sample_polarity sample_reviews)) 1
   = \<lparr>accuracy = 1, precision = 1, recall = 1, f1 = 1,
      confusion = \<lparr>tp = 1, tn = 2, fp = 0, fn = 0\<rparr>,
      examples =
        \<lparr>tp_examples =
           [\<lparr>ex_content = ''This app is a scam'', ex_predicted = ''Negative'',
             ex_contains_negative_keyword = True, ex_score = None, ex_at = None\<rparr>],
         tn_examples =
           [\<lparr>ex_content = ''Great app, love it'', ex_predicted = ''Positive'',
             ex_contains_negative_keyword = False, ex_score = None, ex_at = None\<rparr>],
         fp_examples = [], fn_examples = []\<rparr>\<rparr>"
  by code_simp

lemma sample_unlabelled_fails:
  "classification_body sample_reviews 5 = Inl (KeyError ''sentiment'')"
  by (simp add: classification_body_def sample_reviews_def df_empty_def get_column_def)

lemma if_pos_nat: "(if 0 < (k::nat) then a else b) = (if k = 0 then b else a)"
  by simp

text \<open>
  C8: for a labelled collection (a table with the text and the sentiment column) the four
  confusion counts add up to the number of reviews, and the derived figures are
  accuracy = (tp+tn)/total, precision = tp/(tp+fp), recall = tp/(tp+fn) and
  f1 = 2*precision*recall/(precision+recall), each 0 when its denominator is 0.
\<close>

theorem confusion_counts_partition:
  assumes "''content'' \<in> set (columns df)" and "''sentiment'' \<in> set (columns df)"
    and "compute_classification_metrics (Some df) n = r"
  shows "tp (confusion r) + tn (confusion r) + fp (confusion r) + fn (confusion r)
           = length (rows df)
     \<and> accuracy r =
           (if tp (confusion r) + tn (confusion r) + fp (confusion r) + fn (confusion r) = 0
            then 0
            else rat_of_nat (tp (confusion r) + tn (confusion r))
                   / rat_of_nat (tp (confusion r) + tn (confusion r) + fp (confusion r)
                                   + fn (confusion r)))
     \<and> precision r =
           (if tp (confusion r) + fp (confusion r) = 0 then 0
            else rat_of_nat (tp (confusion r)) / rat_of_nat (tp (confusion r) + fp (confusion r)))
     \<and> recall r =
           (if tp (confusion r) + fn (confusion r) = 0 then 0
            else rat_of_nat (tp (confusion r)) / rat_of_nat (tp (confusion r) + fn (confusion r)))
     \<and> f1 r =
           (if precision r + recall r = 0 then 0
            else 2 * precision r * recall r / (precision r + recall r))"
proof -
  have r: "r = compute_classification_metrics (Some df) n"
    using assms(3) by simp
  have total: "tp (confusion r) + tn (confusion r) + fp (confusion r) + fn (confusion r)
                 = length (rows df)"
    unfolding r using compute_counts [OF assms(1,2), of n]
    by (simp only: four_cells)
  have acc: "accuracy r =
           (if tp (confusion r) + tn (confusion r) + fp (confusion r) + fn (confusion r) = 0
            then 0
            else rat_of_nat (tp (confusion r) + tn (confusion r))
                   / rat_of_nat (tp (confusion r) + tn (confusion r) + fp (confusion r)
                                   + fn (confusion r)))"
    unfolding r using compute_metrics(1) [of "Some df" n] by (simp only: if_pos_nat)
  have prec: "precision r =
           (if tp (confusion r) + fp (confusion r) = 0 then 0
            else rat_of_nat (tp (confusion r)) / rat_of_nat (tp (confusion r) + fp (confusion r)))"
    unfolding r using compute_metrics(2) [of "Some df" n] by (simp only: if_pos_nat)
  have rec: "recall r =
           (if tp (confusion r) + fn (confusion r) = 0 then 0
            else rat_of_nat (tp (confusion r)) / rat_of_nat (tp (confusion r) + fn (confusion r)))"
    unfolding r using compute_metrics(3) [of "Some df" n] by (simp only: if_pos_nat)
  have "0 \<le> precision r" "0 \<le> recall r"
    by (simp_all add: prec rec)
  then have pos: "(0 < precision r + recall r) = (precision r + recall r \<noteq> 0)"
    by linarith
  have f: "f1 r =
           (if precision r + recall r = 0 then 0
            else 2 * precision r * recall r / (precision r + recall r))"
    using compute_metrics(4) [of "Some df" n] unfolding r [symmetric] pos by simp
  from total acc prec rec f show ?thesis
    by blast
qed


theorem confusion_counts_partition_witness:
  "tp (confusion (compute_classification_metrics
                    (Some (label_reviews sample_polarity sample_reviews)) 1))
   + tn (confusion (compute_classification_metrics
                    (Some (label_reviews sample_polarity sample_reviews)) 1))
   + fp (confusion (compute_classification_metrics
                    (Some (label_reviews sample_polarity sample_reviews)) 1))
   + fn (confusion (compute_classification_metrics
                    (Some (label_reviews sample_polarity sample_reviews)) 1)) = 3
   \<and> accuracy (compute_classification_metrics
                    (Some (label_reviews sample_polarity sample_reviews)) 1) = 1"
proof -
  let ?df = "label_reviews sample_polarity sample_reviews"
  have c: "''content'' \<in> set (columns ?df)" "''sentiment'' \<in> set (columns ?df)"
    by (simp_all add: sample_columns)
  have "length (map sentiment (rows ?df)) = 3"
    by (simp only: sample_labels) simp
  then have n: "length (rows ?df) = 3"
    by simp
  from confusion_counts_partition [OF c refl, of 1] show ?thesis
    unfolding n by (simp add: sample_report)
qed

text \<open>
  C9: when every review's label is the one derived from its own text by
  \<^verbatim>\<open>analyze_sentiment\<close> and the labelling with the configured thresholds, no review is a
  false negative, and the recall is 1 as soon as there is a true positive.
\<close>

theorem derived_labels_no_false_negatives:
  assumes "\<forall>r \<in> set (rows df).
             sentiment r = Some (label (analyze_sentiment textblob_polarity (content r))
                                   POSITIVE_THRESHOLD NEGATIVE_THRESHOLD)"
  shows "fn (confusion (compute_classification_metrics (Some df) n)) = 0
     \<and> (0 < tp (confusion (compute_classification_metrics (Some df) n))
          \<longrightarrow> recall (compute_classification_metrics (Some df) n) = 1)"
proof -
  let ?r = "compute_classification_metrics (Some df) n"
  have fn0: "fn (confusion ?r) = 0"
  proof (cases "''content'' \<in> set (columns df) \<and> ''sentiment'' \<in> set (columns df)")
    case True
    have "filter (\<lambda>r. row_truth r \<and> \<not> row_pred r) (rows df) = []"
      using assms truth_implies_pred [of _ textblob_polarity]
      by (auto simp: filter_empty_conv)
    with True show ?thesis
      using compute_counts [of df n] by simp
  next
    case False
    then have "?r = zero_report"
      using compute_without_columns [of df n] by blast
    then show ?thesis
      by (simp add: zero_report_def)
  qed
  have "recall ?r = 1" if "0 < tp (confusion ?r)"
    using compute_metrics(3) [of "Some df" n] that fn0 by simp
  with fn0 show ?thesis
    by blast
qed

theorem derived_labels_no_false_negatives_witness:
  "fn (confusion (compute_classification_metrics
                    (Some (label_reviews sample_polarity sample_reviews)) 1)) = 0
   \<and> 0 < tp (confusion (compute_classification_metrics
                    (Some (label_reviews sample_polarity sample_reviews)) 1))
   \<and> recall (compute_classification_metrics
                    (Some (label_reviews sample_polarity sample_reviews)) 1) = 1"
proof -
  have "''content'' \<in> set (columns sample_reviews)" "\<not> df_empty sample_reviews"
    by (simp_all add: sample_reviews_def df_empty_def)
  then have d: "\<forall>r \<in> set (rows (label_reviews sample_polarity sample_reviews)).
           sentiment r = Some (label (analyze_sentiment sample_polarity (content r))
                                 POSITIVE_THRESHOLD NEGATIVE_THRESHOLD)"
    by (rule label_reviews_derived)
  have t: "0 < tp (confusion (compute_classification_metrics
                    (Some (label_reviews sample_polarity sample_reviews)) 1))"
    by (simp add: sample_report)
  from derived_labels_no_false_negatives [OF d, of 1] t show ?thesis
    by blast
qed

text \<open>
  C10: the estimator returns a report for every argument: the zero report for a missing
  table, for an empty one, and whenever its body raises. For a cap that is not negative,
  no example list is longer than the cap, and each list holds the first rows of its
  confusion cell in the order of the table.
\<close>

theorem classification_metrics_never_fails:
  "compute_classification_metrics None n = zero_report
   \<and> (df_empty df \<longrightarrow> compute_classification_metrics (Some df) n = zero_report)
   \<and> (classification_body df n = Inl e
        \<longrightarrow> compute_classification_metrics (Some df) n = zero_report)
   \<and> (0 \<le> n \<longrightarrow>
          length (tp_examples (examples (compute_classification_metrics dfo n))) \<le> nat n
        \<and> length (tn_examples (examples (compute_classification_metrics dfo n))) \<le> nat n
        \<and> length (fp_examples (examples (compute_classification_metrics dfo n))) \<le> nat n
        \<and> length (fn_examples (examples (compute_classification_metrics dfo n))) \<le> nat n)
   \<and> (0 \<le> n \<and> ''content'' \<in> set (columns df) \<and> ''sentiment'' \<in> set (columns df) \<longrightarrow>
          tp_examples (examples (compute_classification_metrics (Some df) n))
            = map (make_example df)
                (take (nat n) (filter (\<lambda>r. row_truth r \<and> row_pred r) (rows df)))
        \<and> tn_examples (examples (compute_classification_metrics (Some df) n))
            = map (make_example df)
                (take (nat n) (filter (\<lambda>r. \<not> row_truth r \<and> \<not> row_pred r) (rows df)))
        \<and> fp_examples (examples (compute_classification_metrics (Some df) n))
            = map (make_example df)
                (take (nat n) (filter (\<lambda>r. \<not> row_truth r \<and> row_pred r) (rows df)))
        \<and> fn_examples (examples (compute_classification_metrics (Some df) n))
            = map (make_example df)
                (take (nat n) (filter (\<lambda>r. row_truth r \<and> \<not> row_pred r) (rows df))))"
proof -
  have a: "compute_classification_metrics None n = zero_report"
    by (simp add: compute_classification_metrics_def)
  have b: "compute_classification_metrics (Some df) n = zero_report" if "df_empty df"
    using that by (rule compute_empty)
  have c: "compute_classification_metrics (Some df) n = zero_report"
    if "classification_body df n = Inl e"
    using that by (simp add: compute_classification_metrics_def)
  have ex: "tp_examples (examples (compute_classification_metrics (Some d) n))
            = map (make_example d)
                (take (nat n) (filter (\<lambda>r. row_truth r \<and> row_pred r) (rows d)))
        \<and> tn_examples (examples (compute_classification_metrics (Some d) n))
            = map (make_example d)
                (take (nat n) (filter (\<lambda>r. \<not> row_truth r \<and> \<not> row_pred r) (rows d)))
        \<and> fp_examples (examples (compute_classification_metrics (Some d) n))
            = map (make_example d)
                (take (nat n) (filter (\<lambda>r. \<not> row_truth r \<and> row_pred r) (rows d)))
        \<and> fn_examples (examples (compute_classification_metrics (Some d) n))
            = map (make_example d)
                (take (nat n) (filter (\<lambda>r. row_truth r \<and> \<not> row_pred r) (rows d)))"
    if "0 \<le> n" "''content'' \<in> set (columns d)" "''sentiment'' \<in> set (columns d)" for d
    using that by (simp add: compute_examples head_def)
  have len: "length (tp_examples (examples (compute_classification_metrics dfo n))) \<le> nat n
        \<and> length (tn_examples (examples (compute_classification_metrics dfo n))) \<le> nat n
        \<and> length (fp_examples (examples (compute_classification_metrics dfo n))) \<le> nat n
        \<and> length (fn_examples (examples (compute_classification_metrics dfo n))) \<le> nat n"
    if n: "0 \<le> n"
  proof (cases dfo)
    case None
    then show ?thesis
      by (simp add: a zero_report_def)
  next
    case (Some d)
    show ?thesis
    proof (cases "''content'' \<in> set (columns d) \<and> ''sentiment'' \<in> set (columns d)")
      case True
      with ex [of d] n Some show ?thesis
        by simp
    next
      case False
      then have "compute_classification_metrics (Some d) n = zero_report"
        using compute_without_columns [of d n] by blast
      with Some show ?thesis
        by (simp add: zero_report_def)
    qed
  qed
  from a b c len ex [of df] show ?thesis
    by blast
qed

theorem classification_metrics_never_fails_witness:
  "compute_classification_metrics None 5 = zero_report
   \<and> compute_classification_metrics (Some empty_labelled) 5 = zero_report
   \<and> classification_body sample_reviews 5 = Inl (KeyError ''sentiment'')
   \<and> compute_classification_metrics (Some sample_reviews) 5 = zero_report
   \<and> length (tn_examples (examples (compute_classification_metrics
         (Some (label_reviews sample_polarity sample_reviews)) 1))) \<le> 1
   \<and> tn_examples (examples (compute_classification_metrics
         (Some (label_reviews sample_polarity sample_reviews)) 1))
       = map (make_example (label_reviews sample_polarity sample_reviews))
           (take 1 (filter (\<lambda>r. \<not> row_truth r \<and> \<not> row_pred r)
                      (rows (label_reviews sample_polarity sample_reviews))))
   \<and> tn_examples (examples (compute_classification_metrics
         (Some (label_reviews sample_polarity sample_reviews)) 1))
       = [\<lparr>ex_content = ''Great app, love it'', ex_predicted = ''Positive'',
           ex_contains_negative_keyword = False, ex_score = None, ex_at = None\<rparr>]"
proof -
  let ?df = "label_reviews sample_polarity sample_reviews"
  have e: "df_empty empty_labelled"
    by (simp add: df_empty_def empty_labelled_def)
  have c: "''content'' \<in> set (columns ?df)" "''sentiment'' \<in> set (columns ?df)"
    by (simp_all add: sample_columns)
  have one: "nat 1 = 1" "(0::int) \<le> 1"
    by simp_all
  from classification_metrics_never_fails [where n = 5 and df = empty_labelled] e
  have 1: "compute_classification_metrics None 5 = zero_report"
    and 2: "compute_classification_metrics (Some empty_labelled) 5 = zero_report"
    by blast+
  from classification_metrics_never_fails
         [where n = 5 and df = sample_reviews and e = "KeyError ''sentiment''"]
    sample_unlabelled_fails
  have 3: "compute_classification_metrics (Some sample_reviews) 5 = zero_report"
    by blast
  from classification_metrics_never_fails [where n = 1 and df = ?df and dfo = "Some ?df"] c one
  have 4: "length (tn_examples (examples (compute_classification_metrics (Some ?df) 1))) \<le> 1"
    and 5: "tn_examples (examples (compute_classification_metrics (Some ?df) 1))
       = map (make_example ?df)
           (take 1 (filter (\<lambda>r. \<not> row_truth r \<and> \<not> row_pred r) (rows ?df)))"
    by simp_all
  have 6: "tn_examples (examples (compute_classification_metrics (Some ?df) 1))
       = [\<lparr>ex_content = ''Great app, love it'', ex_predicted = ''Positive'',
           ex_contains_negative_keyword = False, ex_score = None, ex_at = None\<rparr>]"
    by (simp add: sample_report)
  from 1 2 3 4 5 6 sample_unlabelled_fails show ?thesis
    by (intro conjI)
qed

end
